theory Spec2Isabelle
  imports Main "HOL-Library.Word" "HOL-Library.Multiset"
begin

section \<open>JavaScript values used by the club rail\<close>

text \<open>
  A JavaScript string is a sequence of UTF-16 code units; \<open>s[0]\<close>, \<open>trim\<close>, \<open>split\<close> and
  \<open>===\<close> all work on code units. \<open>asc\<close> writes a Basic Latin literal as such a sequence.
\<close>

type_synonym code_unit = "16 word"
type_synonym js_string = "code_unit list"

definition asc :: "string \<Rightarrow> js_string" where
  "asc s = map (\<lambda>c. of_nat (of_char c)) s"

text \<open>
  A value of type \<open>T | null | undefined\<close> (the optional, nullable fields \<open>iconUrl?\<close>,
  \<open>accentColor?\<close> and the prop \<open>selectedClubId?\<close>). A type with one absent value only
  (\<open>T | undefined\<close> or \<open>T | null\<close>) is an \<open>option\<close>, \<open>None\<close> being that absent value.
\<close>

datatype 'a nullable = Undefined | Null | Val 'a

text \<open>Truthiness: \<open>undefined\<close>, \<open>null\<close>, the empty string and \<open>0\<close> are falsy.\<close>

fun truthy_string :: "js_string nullable \<Rightarrow> bool" where
  "truthy_string Undefined = False"
| "truthy_string Null = False"
| "truthy_string (Val s) = (s \<noteq> [])"

fun truthy_number :: "int option \<Rightarrow> bool" where
  "truthy_number None = False"
| "truthy_number (Some n) = (n \<noteq> 0)"

text \<open>\<open>Boolean\<close> as the callback of \<open>filter\<close>, on values of type \<open>string | undefined\<close>.\<close>

fun Boolean :: "js_string option \<Rightarrow> bool" where
  "Boolean None = False"
| "Boolean (Some s) = (s \<noteq> [])"

text \<open>
  \<open>xs[i]\<close> on an array whose elements have type \<open>T | undefined\<close>: the element, and
  \<open>undefined\<close> out of range.
\<close>

definition index :: "'a option list \<Rightarrow> nat \<Rightarrow> 'a option" where
  "index xs i = (if i < length xs then xs ! i else None)"

text \<open>\<open>a ?? b\<close> where \<open>a\<close> is \<open>T | undefined\<close>.\<close>

fun nullish :: "'a option \<Rightarrow> 'a \<Rightarrow> 'a" where
  "nullish None d = d"
| "nullish (Some v) d = v"

subsection \<open>White space, \<open>trim\<close> and \<open>split(/\s+/)\<close>\<close>

text \<open>
  The code units that \<open>String.prototype.trim\<close> strips and that the class \<open>\s\<close> matches:
  ECMAScript's WhiteSpace and LineTerminator productions (TAB, LF, VT, FF, CR, SP, NBSP,
  U+1680, U+2000 to U+200A, U+2028, U+2029, U+202F, U+205F, U+3000, U+FEFF).
\<close>

definition is_white_space :: "code_unit \<Rightarrow> bool" where
  "is_white_space c \<longleftrightarrow>
     (0x0009 \<le> c \<and> c \<le> 0x000D) \<or> c = 0x0020 \<or> c = 0x00A0 \<or> c = 0x1680 \<or>
     (0x2000 \<le> c \<and> c \<le> 0x200A) \<or> c = 0x2028 \<or> c = 0x2029 \<or> c = 0x202F \<or>
     c = 0x205F \<or> c = 0x3000 \<or> c = 0xFEFF"

definition trim :: "js_string \<Rightarrow> js_string" where
  "trim s = rev (dropWhile is_white_space (rev (dropWhile is_white_space s)))"

text \<open>
  \<open>String.prototype.split\<close> with the separator \<open>/\s+/\<close>. The loop of the language
  definition keeps the start \<open>p\<close> of the current piece and a position \<open>q\<close>: where the
  separator does not match at \<open>q\<close>, \<open>q\<close> advances; where it matches (greedily, so up to
  the end of the run of white space), the piece from \<open>p\<close> to \<open>q\<close> is pushed and both
  move past the match; at the end the rest from \<open>p\<close> is pushed. Here \<open>piece\<close> holds the
  code units from \<open>p\<close> to \<open>q\<close> and the list argument those from \<open>q\<close> on.
\<close>

function split_loop :: "js_string \<Rightarrow> js_string \<Rightarrow> js_string list" where
  "split_loop piece [] = [piece]"
| "split_loop piece (c # cs) =
     (if is_white_space c then piece # split_loop [] (dropWhile is_white_space cs)
      else split_loop (piece @ [c]) cs)"
  by pat_completeness auto
termination
  by (relation "measure (\<lambda>(piece, s). length s)")
     (auto simp: le_imp_less_Suc length_dropWhile_le)

definition split :: "js_string \<Rightarrow> js_string list" where
  "split s = (if s = [] then [[]] else split_loop [] s)"

section \<open>ClubRail.svelte: the fallback glyph\<close>

text \<open>
  \<open>String.prototype.toUpperCase\<close> is a built-in of the language whose table (the Unicode
  case mapping) is not part of the repository: \<open>initials\<close> takes it as a parameter.
  \<open>toUpperCase_basic_latin\<close> maps the small letters of Basic Latin and leaves every other
  code unit as it is: it is the built-in on the strings evaluated below, which are made
  of Basic Latin code units and of U+1F600, a character with no case mapping whose
  surrogates the built-in leaves as they are, paired or alone.
\<close>

definition toUpperCase_basic_latin :: "js_string \<Rightarrow> js_string" where
  "toUpperCase_basic_latin s = map (\<lambda>c. if 0x61 \<le> c \<and> c \<le> 0x7A then c - 0x20 else c) s"

text \<open>\<open>s[0]?.toUpperCase()\<close>: \<open>undefined\<close> on the empty string.\<close>

fun first_upper :: "(js_string \<Rightarrow> js_string) \<Rightarrow> js_string \<Rightarrow> js_string option" where
  "first_upper toUpperCase [] = None"
| "first_upper toUpperCase (c # cs) = Some (toUpperCase [c])"

definition initials :: "(js_string \<Rightarrow> js_string) \<Rightarrow> js_string \<Rightarrow> js_string" where
  "initials toUpperCase name =
     (let p = filter Boolean (map (first_upper toUpperCase) (split (trim name)))
      in nullish (index p 0) (asc ''?'') @ nullish (index p 1) [])"







section \<open>club.ts: the data shape\<close>

text \<open>
  \<open>unreadCount\<close> and \<open>mentionCount\<close> are counters: \<open>number\<close> is modelled by the integers
  (the specification asks for non-negative integers; negative ones are kept, the type
  allowing them; fractions and \<open>NaN\<close> are not modelled). The field \<open>id\<close> is \<open>id_club\<close> here.
\<close>

record ClubSummary =
  id_club :: js_string
  name :: js_string
  iconUrl :: "js_string nullable"
  unreadCount :: "int option"
  mentionCount :: "int option"
  accentColor :: "js_string nullable"

section \<open>ClubRail.svelte: props, markup and activation\<close>

text \<open>
  The payload of \<open>select\<close>. A callback returns nothing and acts on the state of its owner,
  of type \<open>'w\<close>. The prop \<open>class\<close> only adds style classes to the \<open>nav\<close> element and is left
  out.
\<close>

record Payload =
  id_payload :: "js_string option"

record 'w Props =
  clubs :: "ClubSummary list option"
  selectedClubId :: "js_string nullable"
  showHome :: "bool option"
  select :: "(Payload \<Rightarrow> 'w \<Rightarrow> 'w) option"
  create :: "('w \<Rightarrow> 'w) option"
  settings :: "('w \<Rightarrow> 'w) option"

text \<open>The defaults of the destructuring: \<open>clubs = []\<close>, \<open>selectedClubId = null\<close>, \<open>showHome = true\<close>.\<close>

definition clubs_of :: "'w Props \<Rightarrow> ClubSummary list" where
  "clubs_of props = (case clubs props of None \<Rightarrow> [] | Some cs \<Rightarrow> cs)"

definition selectedClubId_of :: "'w Props \<Rightarrow> js_string option" where
  "selectedClubId_of props =
     (case selectedClubId props of Undefined \<Rightarrow> None | Null \<Rightarrow> None | Val s \<Rightarrow> Some s)"

definition showHome_of :: "'w Props \<Rightarrow> bool" where
  "showHome_of props = (case showHome props of None \<Rightarrow> True | Some b \<Rightarrow> b)"

text \<open>
  What the markup renders. A button carries its \<open>aria-label\<close>, whether its class list has
  the selection ring \<open>ring-2 ring-sidebar-ring\<close>, the call its \<open>onclick\<close> makes, and the
  text of the tooltip beside it. A club button has in addition its key in the \<open>each\<close>
  block, the \<open>src\<close> of its \<open>AvatarImage\<close> (where one is rendered), the style and the text of
  its \<open>AvatarFallback\<close>, the content of the unread badge (where one is rendered) and
  whether the mention dot is rendered.
\<close>

datatype handler = OnSelect Payload | OnCreate | OnSettings

datatype text_value = Str js_string | Num int

record Button =
  aria_label :: js_string
  selected :: bool
  onclick :: handler
  tooltip :: js_string

record ClubButton = Button +
  key :: js_string
  image_src :: "js_string option"
  fallback_style :: js_string
  fallback_text :: js_string
  badge :: "text_value option"
  mention :: bool

datatype entry = Home Button | Club ClubButton | Create Button | Settings Button

definition home_button :: "js_string option \<Rightarrow> Button" where
  "home_button sel =
     \<lparr>aria_label = asc ''Home'',
      selected = (sel = None),
      onclick = OnSelect \<lparr>id_payload = None\<rparr>,
      tooltip = asc ''Home''\<rparr>"

definition avatar_image :: "js_string nullable \<Rightarrow> js_string option" where
  "avatar_image url =
     (if truthy_string url then (case url of Val u \<Rightarrow> Some u | _ \<Rightarrow> None) else None)"

definition avatar_style :: "js_string nullable \<Rightarrow> js_string" where
  "avatar_style color =
     (if truthy_string color
      then (case color of
              Val a \<Rightarrow> asc ''background:'' @ a @ asc ''; color: var(--sidebar-foreground)''
            | _ \<Rightarrow> [])
      else [])"

definition unread_badge :: "int option \<Rightarrow> text_value option" where
  "unread_badge unread =
     (if truthy_number unread
      then (case unread of
              Some n \<Rightarrow> Some (if n > 99 then Str (asc ''99+'') else Num n)
            | None \<Rightarrow> None)
      else None)"

definition club_button ::
  "(js_string \<Rightarrow> js_string) \<Rightarrow> js_string option \<Rightarrow> ClubSummary \<Rightarrow> ClubButton" where
  "club_button toUpperCase sel club =
     \<lparr>aria_label = name club,
      selected = (sel = Some (id_club club)),
      onclick = OnSelect \<lparr>id_payload = Some (id_club club)\<rparr>,
      tooltip = name club,
      key = id_club club,
      image_src = avatar_image (iconUrl club),
      fallback_style = avatar_style (accentColor club),
      fallback_text = initials toUpperCase (name club),
      badge = unread_badge (unreadCount club),
      mention = truthy_number (mentionCount club)\<rparr>"

definition create_button :: Button where
  "create_button =
     \<lparr>aria_label = asc ''Create club'',
      selected = False,
      onclick = OnCreate,
      tooltip = asc ''Create a club''\<rparr>"

definition settings_button :: Button where
  "settings_button =
     \<lparr>aria_label = asc ''Settings'',
      selected = False,
      onclick = OnSettings,
      tooltip = asc ''Settings''\<rparr>"

definition ClubRail :: "(js_string \<Rightarrow> js_string) \<Rightarrow> 'w Props \<Rightarrow> entry list" where
  "ClubRail toUpperCase props =
     (if showHome_of props then [Home (home_button (selectedClubId_of props))] else []) @
     map (\<lambda>club. Club (club_button toUpperCase (selectedClubId_of props) club)) (clubs_of props) @
     [Create create_button, Settings settings_button]"



text \<open>The button of an entry, and the facts about an entry that the properties speak of.\<close>

fun button_of :: "entry \<Rightarrow> Button" where
  "button_of (Home b) = b"
| "button_of (Club b) = Button.truncate b"
| "button_of (Create b) = b"
| "button_of (Settings b) = b"

text \<open>The club buttons of a rail, in the order of the rail.\<close>

fun club_buttons :: "entry list \<Rightarrow> ClubButton list" where
  "club_buttons [] = []"
| "club_buttons (Club b # es) = b # club_buttons es"
| "club_buttons (e # es) = club_buttons es"

text \<open>
  The derived presentation of a club entry: the image, the style and text of the fallback,
  the unread badge and the mention dot.
\<close>

definition presentation ::
  "ClubButton \<Rightarrow> js_string option \<times> js_string \<times> js_string \<times> text_value option \<times> bool" where
  "presentation b = (image_src b, fallback_style b, fallback_text b, badge b, mention b)"

fun is_home :: "entry \<Rightarrow> bool" where
  "is_home (Home b) = True"
| "is_home e = False"

text \<open>
  The destination an entry stands for: \<open>null\<close> for Home, the club's id for a club entry;
  the two actions stand for none.
\<close>

fun destination :: "entry \<Rightarrow> js_string option option" where
  "destination (Home b) = Some None"
| "destination (Club b) = Some (Some (key b))"
| "destination (Create b) = None"
| "destination (Settings b) = None"

text \<open>
  Activating an entry runs its \<open>onclick\<close>: \<open>select?.(payload)\<close>, \<open>create?.()\<close> or
  \<open>settings?.()\<close>, each a call only where the callback was passed.
\<close>

definition run_handler :: "'w Props \<Rightarrow> handler \<Rightarrow> 'w \<Rightarrow> 'w" where
  "run_handler props h w =
     (case h of
        OnSelect payload \<Rightarrow> (case select props of None \<Rightarrow> w | Some f \<Rightarrow> f payload w)
      | OnCreate \<Rightarrow> (case create props of None \<Rightarrow> w | Some f \<Rightarrow> f w)
      | OnSettings \<Rightarrow> (case settings props of None \<Rightarrow> w | Some f \<Rightarrow> f w))"

definition activate :: "'w Props \<Rightarrow> entry \<Rightarrow> 'w \<Rightarrow> 'w" where
  "activate props e w = run_handler props (onclick (button_of e)) w"

text \<open>
  Callbacks that record their own call, to count the calls an activation makes.
\<close>

datatype call = SelectCalled Payload | CreateCalled | SettingsCalled

definition recording :: "ClubSummary list \<Rightarrow> js_string option \<Rightarrow> bool \<Rightarrow> call list Props" where
  "recording cs sel home =
     \<lparr>clubs = Some cs,
      selectedClubId = (case sel of None \<Rightarrow> Null | Some s \<Rightarrow> Val s),
      showHome = Some home,
      select = Some (\<lambda>payload log. log @ [SelectCalled payload]),
      create = Some (\<lambda>log. log @ [CreateCalled]),
      settings = Some (\<lambda>log. log @ [SettingsCalled])\<rparr>"

section \<open>routes/app/+layout.svelte: the shell\<close>

record Shell =
  shell_clubs :: "ClubSummary list"
  shell_selectedClubId :: "js_string option"

text \<open>
  The state of the shell: the constant \<open>clubs\<close> and the \<open>$state\<close> variable
  \<open>selectedClubId\<close>. \<open>club\<close> builds one object literal of the list, which gives \<open>id\<close>, \<open>name\<close>,
  \<open>accentColor\<close> and at most one of the counters, and leaves \<open>iconUrl\<close> out.
\<close>

definition club :: "string \<Rightarrow> string \<Rightarrow> string \<Rightarrow> int option \<Rightarrow> int option \<Rightarrow> ClubSummary" where
  "club i n a u m =
     \<lparr>id_club = asc i, name = asc n, iconUrl = Undefined, unreadCount = u, mentionCount = m,
      accentColor = Val (asc a)\<rparr>"

definition layout_clubs :: "ClubSummary list" where
  "layout_clubs =
     [club ''homebrew'' ''Homebrew Guild'' ''#fbff86'' (Some 3) None,
      club ''synthwave'' ''Synthwave Cafe'' ''#905ea9'' None None,
      club ''devs'' ''Dev Collective'' ''#30e1b9'' None (Some 1),
      club ''pixels'' ''Pixel Artists'' ''#fbb954'' None None,
      club ''gamers'' ''Night Gamers'' ''#4d9be6'' None None,
      club ''plants'' ''Plant Parents'' ''#91db69'' None None]"

text \<open>\<open>$state(clubs[0]?.id ?? null)\<close>\<close>

definition initial_selectedClubId :: "ClubSummary list \<Rightarrow> js_string option" where
  "initial_selectedClubId cs = (case cs of [] \<Rightarrow> None | c # _ \<Rightarrow> Some (id_club c))"

definition init_shell :: "ClubSummary list \<Rightarrow> Shell" where
  "init_shell cs = \<lparr>shell_clubs = cs, shell_selectedClubId = initial_selectedClubId cs\<rparr>"

definition handleSelect :: "Payload \<Rightarrow> Shell \<Rightarrow> Shell" where
  "handleSelect payload st = st\<lparr>shell_selectedClubId := id_payload payload\<rparr>"

text \<open>The props the shell passes: \<open>{clubs} {selectedClubId} select={handleSelect}\<close>.\<close>

definition shell_props :: "Shell \<Rightarrow> Shell Props" where
  "shell_props st =
     \<lparr>clubs = Some (shell_clubs st),
      selectedClubId = (case shell_selectedClubId st of None \<Rightarrow> Null | Some s \<Rightarrow> Val s),
      showHome = None,
      select = Some handleSelect,
      create = None,
      settings = None\<rparr>"

section \<open>The fallback glyph: \<open>initials\<close> against the specification\<close>





















section \<open>The rail\<close>

text \<open>The club buttons of the rail are the buttons of the clubs, in the order of \<open>clubs\<close>.\<close>

lemma rail_club_buttons:
  "club_buttons (ClubRail up props) =
     map (club_button up (selectedClubId_of props)) (clubs_of props)"
proof -
  have a: "club_buttons (map (\<lambda>c. Club (f c)) cs @ es) = map f cs @ club_buttons es" for f cs es
    by (induction cs) simp_all
  show ?thesis by (simp add: ClubRail_def a)
qed

lemma filter_distinct_key:
  "distinct (map f xs) \<Longrightarrow> length (filter (\<lambda>c. x = f c) xs) \<le> Suc 0"
proof (induction xs)
  case Nil
  then show ?case by simp
next
  case (Cons a xs)
  show ?case
  proof (cases "x = f a")
    case True
    with Cons.prems have "\<forall>c\<in>set xs. x \<noteq> f c" by auto
    then have "filter (\<lambda>c. x = f c) xs = []" by (simp add: filter_empty_conv)
    with True show ?thesis by simp
  next
    case False
    with Cons show ?thesis by simp
  qed
qed

text \<open>
  Every entry but the create action has an \<open>aria-label\<close> equal to the text of its tooltip:
  \<open>Home\<close>, the name of the club, \<open>Settings\<close>.
\<close>

lemma aria_label_is_tooltip:
  "\<forall>e\<in>set (ClubRail up props). \<not> (\<exists>b. e = Create b) \<longrightarrow>
     aria_label (button_of e) = tooltip (button_of e)"
  by (auto simp: ClubRail_def home_button_def settings_button_def club_button_def
        Button.truncate_def)

text \<open>
  C2. For the club at every position of the rendered list: the unread badge is rendered
  iff \<open>unreadCount\<close> is present and not zero; its content is \<open>99+\<close> iff \<open>unreadCount\<close> is
  over 99 and the count itself otherwise; the mention dot is rendered iff \<open>mentionCount\<close>
  is present and not zero; the badge does not depend on \<open>mentionCount\<close> nor the dot on
  \<open>unreadCount\<close>.
\<close>

theorem unread_badge_and_mention_dot:
  assumes "i < length (clubs_of props)"
  shows "let c = clubs_of props ! i; b = club_buttons (ClubRail up props) ! i in
     (badge b \<noteq> None \<longleftrightarrow> (\<exists>n. unreadCount c = Some n \<and> n \<noteq> 0)) \<and>
     (\<forall>n. unreadCount c = Some n \<and> n \<noteq> 0 \<longrightarrow>
        badge b = Some (if n > 99 then Str (asc ''99+'') else Num n)) \<and>
     (badge b = Some (Str (asc ''99+'')) \<longleftrightarrow> (\<exists>n. unreadCount c = Some n \<and> n > 99)) \<and>
     (mention b \<longleftrightarrow> (\<exists>m. mentionCount c = Some m \<and> m \<noteq> 0)) \<and>
     badge (club_button up sel (c\<lparr>mentionCount := m'\<rparr>)) = badge b \<and>
     mention (club_button up sel (c\<lparr>unreadCount := u'\<rparr>)) = mention b"
proof -
  have b: "club_buttons (ClubRail up props) ! i =
           club_button up (selectedClubId_of props) (clubs_of props ! i)"
    using assms by (simp add: rail_club_buttons)
  show ?thesis
    unfolding Let_def b
    by (cases "unreadCount (clubs_of props ! i)"; cases "mentionCount (clubs_of props ! i)")
       (auto simp: club_button_def unread_badge_def)
qed

text \<open>
  The four combinations on one entry: both indicators, the badge alone (with the count
  as its content), the dot alone, neither.
\<close>

theorem unread_badge_and_mention_dot_witness:
  "badge (club_buttons (ClubRail toUpperCase_basic_latin
      (recording [club ''a'' ''A'' ''#fff'' (Some 150) (Some 1)] None True)) ! 0) =
     Some (Str (asc ''99+'')) \<and>
   mention (club_buttons (ClubRail toUpperCase_basic_latin
      (recording [club ''a'' ''A'' ''#fff'' (Some 150) (Some 1)] None True)) ! 0) \<and>
   badge (club_buttons (ClubRail toUpperCase_basic_latin
      (recording [club ''a'' ''A'' ''#fff'' (Some 3) None] None True)) ! 0) = Some (Num 3) \<and>
   \<not> mention (club_buttons (ClubRail toUpperCase_basic_latin
      (recording [club ''a'' ''A'' ''#fff'' (Some 3) None] None True)) ! 0) \<and>
   badge (club_buttons (ClubRail toUpperCase_basic_latin
      (recording [club ''a'' ''A'' ''#fff'' (Some 0) (Some 1)] None True)) ! 0) = None \<and>
   mention (club_buttons (ClubRail toUpperCase_basic_latin
      (recording [club ''a'' ''A'' ''#fff'' (Some 0) (Some 1)] None True)) ! 0) \<and>
   badge (club_buttons (ClubRail toUpperCase_basic_latin
      (recording [club ''a'' ''A'' ''#fff'' None (Some 0)] None True)) ! 0) = None \<and>
   \<not> mention (club_buttons (ClubRail toUpperCase_basic_latin
      (recording [club ''a'' ''A'' ''#fff'' None (Some 0)] None True)) ! 0)"
proof -
  have l: "0 < length (clubs_of (recording [club ''a'' ''A'' ''#fff'' u m] None True))" for u m
    by (simp add: clubs_of_def recording_def)
  have c: "clubs_of (recording [x] None True) ! 0 = x" for x
    by (simp add: clubs_of_def recording_def)
  from unread_badge_and_mention_dot [OF l [of "Some 150" "Some 1"], where up = toUpperCase_basic_latin]
       unread_badge_and_mention_dot [OF l [of "Some 3" None], where up = toUpperCase_basic_latin]
       unread_badge_and_mention_dot [OF l [of "Some 0" "Some 1"], where up = toUpperCase_basic_latin]
       unread_badge_and_mention_dot [OF l [of None "Some 0"], where up = toUpperCase_basic_latin]
  show ?thesis
    by (simp add: Let_def c club_def)
qed

text \<open>
  C3. For clubs with distinct ids and every \<open>selectedClubId\<close>, at most one entry of the
  rail carries the selection ring, and an entry carries it iff the destination it stands
  for is \<open>selectedClubId\<close>: Home iff that is \<open>null\<close>, a club iff it is the club's id, the
  two actions never.
\<close>

theorem selection_exclusive:
  assumes "distinct (map id_club (clubs_of props))"
  shows "length (filter (\<lambda>e. selected (button_of e)) (ClubRail up props)) \<le> 1 \<and>
         (\<forall>e\<in>set (ClubRail up props).
            selected (button_of e) \<longleftrightarrow> destination e = Some (selectedClubId_of props))"
proof -
  let ?sel = "selectedClubId_of props"
  have f: "filter ((\<lambda>e. selected (button_of e)) \<circ> (\<lambda>c. Club (club_button up s c))) cs =
           filter (\<lambda>c. s = Some (id_club c)) cs" for s cs
    by (simp add: comp_def club_button_def Button.truncate_def)
  have one: "length (filter (\<lambda>e. selected (button_of e)) (ClubRail up props)) \<le> 1"
  proof (cases ?sel)
    case None
    then show ?thesis
      by (simp add: ClubRail_def f home_button_def create_button_def settings_button_def)
  next
    case (Some x)
    have "length (filter (\<lambda>c. x = id_club c) (clubs_of props)) \<le> Suc 0"
      using assms by (rule filter_distinct_key)
    with Some show ?thesis
      by (simp add: ClubRail_def f home_button_def create_button_def settings_button_def)
  qed
  have iff: "\<forall>e\<in>set (ClubRail up props).
            selected (button_of e) \<longleftrightarrow> destination e = Some ?sel"
    by (auto simp: ClubRail_def home_button_def create_button_def settings_button_def
          club_button_def Button.truncate_def)
  from one iff show ?thesis by simp
qed

text \<open>
  The shell's clubs have distinct ids; with \<open>devs\<close> selected the rail has one selected
  entry, the club \<open>devs\<close>.
\<close>

theorem selection_exclusive_witness:
  "distinct (map id_club layout_clubs) \<and>
   length (filter (\<lambda>e. selected (button_of e))
     (ClubRail toUpperCase_basic_latin (recording layout_clubs (Some (asc ''devs'')) True))) \<le> 1 \<and>
   map destination (filter (\<lambda>e. selected (button_of e))
     (ClubRail toUpperCase_basic_latin (recording layout_clubs (Some (asc ''devs'')) True))) =
     [Some (Some (asc ''devs''))]"
proof -
  have c: "clubs_of (recording layout_clubs s True) = layout_clubs" for s
    by (simp add: clubs_of_def recording_def)
  have d: "distinct (map id_club layout_clubs)"
    by (simp add: layout_clubs_def club_def asc_def)
  have d': "distinct (map id_club (clubs_of (recording layout_clubs (Some (asc ''devs'')) True)))"
    using d by (simp only: c)
  have m: "map destination (filter (\<lambda>e. selected (button_of e))
     (ClubRail toUpperCase_basic_latin (recording layout_clubs (Some (asc ''devs'')) True))) =
     [Some (Some (asc ''devs''))]"
    by (simp add: ClubRail_def recording_def clubs_of_def selectedClubId_of_def showHome_of_def
          layout_clubs_def club_def club_button_def home_button_def create_button_def
          settings_button_def Button.truncate_def asc_def)
  from selection_exclusive [OF d', where up = toUpperCase_basic_latin] d m
  show ?thesis by simp
qed


text \<open>
  C4. The create action is an entry of every rail; its \<open>aria-label\<close> is \<open>Create club\<close>, while
  its display name, the text of its tooltip, is \<open>Create a club\<close>.
\<close>

theorem create_label_differs_from_display_name:
  "Create create_button \<in> set (ClubRail up props) \<and>
   aria_label create_button = asc ''Create club'' \<and>
   tooltip create_button = asc ''Create a club'' \<and>
   aria_label create_button \<noteq> tooltip create_button"
  by (simp add: ClubRail_def create_button_def asc_def)

text \<open>
  C5. Activating the entry of a club calls \<open>select\<close> once, with the club's id as payload,
  and calls neither \<open>create\<close> nor \<open>settings\<close>; activating Home calls \<open>select\<close> once with the
  payload \<open>null\<close>. With callbacks that record their calls the record grows by that one
  call; with any \<open>select\<close> the state after the activation is the one \<open>select\<close> returns.
\<close>

theorem activation_calls_select_once:
  "(c \<in> set cs \<longrightarrow>
      Club (club_button up sel c) \<in> set (ClubRail up (recording cs sel home)) \<and>
      activate (recording cs sel home) (Club (club_button up sel c)) log =
        log @ [SelectCalled \<lparr>id_payload = Some (id_club c)\<rparr>]) \<and>
   (home \<longrightarrow>
      Home (home_button sel) \<in> set (ClubRail up (recording cs sel home)) \<and>
      activate (recording cs sel home) (Home (home_button sel)) log =
        log @ [SelectCalled \<lparr>id_payload = None\<rparr>]) \<and>
   (select props = Some f \<longrightarrow>
      activate props (Club (club_button up s c)) w = f \<lparr>id_payload = Some (id_club c)\<rparr> w \<and>
      activate props (Home (home_button s)) w = f \<lparr>id_payload = None\<rparr> w)"
  by (auto simp: ClubRail_def recording_def activate_def run_handler_def club_button_def
        home_button_def Button.truncate_def clubs_of_def selectedClubId_of_def showHome_of_def
        split: option.splits)

text \<open>
  Activating \<open>devs\<close> in the shell's list, then Home, records the two calls of \<open>select\<close>;
  through the shell's own props the activation is \<open>handleSelect\<close>.
\<close>

theorem activation_calls_select_once_witness:
  "activate (recording layout_clubs None True)
     (Club (club_button toUpperCase_basic_latin None
        (club ''devs'' ''Dev Collective'' ''#30e1b9'' None (Some 1)))) [] =
     [SelectCalled \<lparr>id_payload = Some (asc ''devs'')\<rparr>] \<and>
   activate (recording layout_clubs None True) (Home (home_button None))
     [SelectCalled \<lparr>id_payload = Some (asc ''devs'')\<rparr>] =
     [SelectCalled \<lparr>id_payload = Some (asc ''devs'')\<rparr>, SelectCalled \<lparr>id_payload = None\<rparr>] \<and>
   shell_selectedClubId (activate (shell_props (init_shell layout_clubs))
     (Club (club_button toUpperCase_basic_latin None
        (club ''devs'' ''Dev Collective'' ''#30e1b9'' None (Some 1))))
     (init_shell layout_clubs)) = Some (asc ''devs'')"
proof -
  have m: "club ''devs'' ''Dev Collective'' ''#30e1b9'' None (Some 1) \<in> set layout_clubs"
    by (simp add: layout_clubs_def)
  have s: "select (shell_props (init_shell layout_clubs)) = Some handleSelect"
    by (simp add: shell_props_def)
  have i: "id_club (club ''devs'' ''Dev Collective'' ''#30e1b9'' None (Some 1)) = asc ''devs''"
    by (simp add: club_def)
  from activation_calls_select_once
         [where c = "club ''devs'' ''Dev Collective'' ''#30e1b9'' None (Some 1)"
            and cs = layout_clubs and sel = None and home = True and log = "[]"
            and up = toUpperCase_basic_latin and s = None
            and props = "shell_props (init_shell layout_clubs)" and f = handleSelect
            and w = "init_shell layout_clubs"]
       activation_calls_select_once
         [where c = "club ''devs'' ''Dev Collective'' ''#30e1b9'' None (Some 1)"
            and cs = layout_clubs and sel = None and home = True
            and log = "[SelectCalled \<lparr>id_payload = Some (asc ''devs'')\<rparr>]"
            and up = toUpperCase_basic_latin and s = None
            and props = "shell_props (init_shell layout_clubs)" and f = handleSelect
            and w = "init_shell layout_clubs"]
       m s i
  show ?thesis by (simp add: handleSelect_def)
qed

text \<open>
  C6. \<open>handleSelect\<close> replaces the selection by the id of the payload, whatever the id,
  and leaves the clubs as they are; after an id that no club has, no entry of the rail
  carries the selection ring.
\<close>

theorem handleSelect_permissive:
  "handleSelect p st = st\<lparr>shell_selectedClubId := id_payload p\<rparr> \<and>
   shell_selectedClubId (handleSelect p st) = id_payload p \<and>
   shell_clubs (handleSelect p st) = shell_clubs st \<and>
   (\<forall>x. id_payload p = Some x \<and> x \<notin> id_club ` set (shell_clubs st) \<longrightarrow>
      (\<forall>e\<in>set (ClubRail up (shell_props (handleSelect p st))). \<not> selected (button_of e)))"
  by (auto simp: handleSelect_def ClubRail_def shell_props_def clubs_of_def selectedClubId_of_def
        showHome_of_def home_button_def create_button_def settings_button_def club_button_def
        Button.truncate_def)

text \<open>Selecting \<open>ghost\<close>, the id of no club of the shell, is accepted and selects no entry.\<close>

theorem handleSelect_permissive_witness:
  "asc ''ghost'' \<notin> id_club ` set layout_clubs \<and>
   shell_selectedClubId (handleSelect \<lparr>id_payload = Some (asc ''ghost'')\<rparr> (init_shell layout_clubs)) =
     Some (asc ''ghost'') \<and>
   shell_clubs (handleSelect \<lparr>id_payload = Some (asc ''ghost'')\<rparr> (init_shell layout_clubs)) =
     layout_clubs \<and>
   filter (\<lambda>e. selected (button_of e))
     (ClubRail toUpperCase_basic_latin
        (shell_props (handleSelect \<lparr>id_payload = Some (asc ''ghost'')\<rparr> (init_shell layout_clubs)))) = []"
proof -
  have g: "asc ''ghost'' \<notin> id_club ` set layout_clubs"
    by (simp add: layout_clubs_def club_def asc_def)
  have c: "shell_clubs (init_shell layout_clubs) = layout_clubs"
    by (simp add: init_shell_def)
  from handleSelect_permissive
         [where p = "\<lparr>id_payload = Some (asc ''ghost'')\<rparr>" and st = "init_shell layout_clubs"
            and up = toUpperCase_basic_latin] g c
  show ?thesis by (simp add: filter_empty_conv)
qed

text \<open>
  C7. The shell starts with the id of the first club selected where there is a club, and
  with \<open>null\<close> (home) where there is none; with its own list, with \<open>homebrew\<close>.
\<close>

theorem initial_selection:
  "initial_selectedClubId [] = None \<and>
   initial_selectedClubId (c # cs) = Some (id_club c) \<and>
   shell_selectedClubId (init_shell cs) = initial_selectedClubId cs \<and>
   shell_clubs (init_shell cs) = cs \<and>
   shell_selectedClubId (init_shell layout_clubs) = Some (asc ''homebrew'')"
  by (simp add: initial_selectedClubId_def init_shell_def layout_clubs_def club_def)

text \<open>
  C8. The derived presentation of a club entry (image, style and text of the fallback,
  unread badge, mention dot) is a function of its club alone, the same at every position
  and under every selection; so a rail of the same clubs in another order has the same
  entries, each with the presentation it had.
\<close>

theorem presentation_of_club_alone:
  fixes props props' :: "'w Props"
  shows "map presentation (club_buttons (ClubRail up props)) =
     map (\<lambda>c. presentation (club_button up None c)) (clubs_of props) \<and>
   (mset (clubs_of props') = mset (clubs_of props) \<longrightarrow>
      mset (map (\<lambda>b. (key b, presentation b)) (club_buttons (ClubRail up props'))) =
      mset (map (\<lambda>b. (key b, presentation b)) (club_buttons (ClubRail up props))))"
proof -
  have p: "presentation (club_button up s c) = presentation (club_button up None c)" for s c
    by (simp add: presentation_def club_button_def)
  have k: "key (club_button up s c) = id_club c" for s c
    by (simp add: club_button_def)
  have m: "map (\<lambda>b. (key b, presentation b)) (club_buttons (ClubRail up q)) =
           map (\<lambda>c. (id_club c, presentation (club_button up None c))) (clubs_of q)"
    for q :: "'w Props"
    by (simp add: rail_club_buttons k p [of "selectedClubId_of q"] comp_def)
  have "mset (clubs_of props') = mset (clubs_of props) \<longrightarrow>
      mset (map (\<lambda>b. (key b, presentation b)) (club_buttons (ClubRail up props'))) =
      mset (map (\<lambda>b. (key b, presentation b)) (club_buttons (ClubRail up props)))"
    by (simp only: m) simp
  moreover have "map presentation (club_buttons (ClubRail up props)) =
     map (\<lambda>c. presentation (club_button up None c)) (clubs_of props)"
    by (simp add: rail_club_buttons p [of "selectedClubId_of props"] comp_def)
  ultimately show ?thesis by simp
qed

text \<open>Two clubs of the shell in both orders, under different selections.\<close>

theorem presentation_of_club_alone_witness:
  "mset (map (\<lambda>b. (key b, presentation b)) (club_buttons (ClubRail toUpperCase_basic_latin
      (recording [club ''devs'' ''Dev Collective'' ''#30e1b9'' None (Some 1),
                  club ''homebrew'' ''Homebrew Guild'' ''#fbff86'' (Some 3) None]
         (Some (asc ''devs'')) True)))) =
   mset (map (\<lambda>b. (key b, presentation b)) (club_buttons (ClubRail toUpperCase_basic_latin
      (recording [club ''homebrew'' ''Homebrew Guild'' ''#fbff86'' (Some 3) None,
                  club ''devs'' ''Dev Collective'' ''#30e1b9'' None (Some 1)]
         None True))))"
proof -
  have c: "clubs_of (recording cs s True) = cs" for cs s
    by (simp add: clubs_of_def recording_def)
  have "mset [club ''devs'' ''Dev Collective'' ''#30e1b9'' None (Some 1),
              club ''homebrew'' ''Homebrew Guild'' ''#fbff86'' (Some 3) None] =
        mset [club ''homebrew'' ''Homebrew Guild'' ''#fbff86'' (Some 3) None,
              club ''devs'' ''Dev Collective'' ''#30e1b9'' None (Some 1)]"
    by (simp add: add_mset_commute)
  with presentation_of_club_alone
         [where up = toUpperCase_basic_latin
            and props' = "recording [club ''devs'' ''Dev Collective'' ''#30e1b9'' None (Some 1),
                  club ''homebrew'' ''Homebrew Guild'' ''#fbff86'' (Some 3) None]
                  (Some (asc ''devs'')) True"
            and props = "recording [club ''homebrew'' ''Homebrew Guild'' ''#fbff86'' (Some 3) None,
                  club ''devs'' ''Dev Collective'' ''#30e1b9'' None (Some 1)] None True"]
  show ?thesis by (simp only: c)
qed

text \<open>
  C9. With \<open>showHome\<close> false the rail has no Home entry, whatever \<open>selectedClubId\<close> and
  \<open>clubs\<close> are.
\<close>

theorem no_home_entry:
  "showHome props = Some False \<Longrightarrow> \<forall>e\<in>set (ClubRail up props). \<not> is_home e"
  by (auto simp: ClubRail_def showHome_of_def)

text \<open>Without Home and with \<open>null\<close> selected, the rail of the shell's clubs has no Home entry.\<close>

theorem no_home_entry_witness:
  "showHome (recording layout_clubs None False) = Some False \<and>
   filter is_home (ClubRail toUpperCase_basic_latin (recording layout_clubs None False)) = []"
proof -
  have h: "showHome (recording layout_clubs None False) = Some False"
    by (simp add: recording_def)
  from no_home_entry [OF h, where up = toUpperCase_basic_latin] h
  show ?thesis by (simp add: filter_empty_conv)
qed




end
